theory Spec2Isabelle
  imports Main
begin

section \<open>Strings\<close>

text \<open>
  A Go \<^verbatim>\<open>string\<close> is a sequence of bytes; it is modelled as \<^typ>\<open>string\<close>, a list of
  8-bit characters. \<^verbatim>\<open>strings.HasPrefix\<close>, \<^verbatim>\<open>strings.HasSuffix\<close> and
  \<^verbatim>\<open>strings.TrimPrefix\<close> compare and cut bytes.
\<close>

definition HasPrefix :: "string \<Rightarrow> string \<Rightarrow> bool" where
  "HasPrefix s prefix = (length prefix \<le> length s \<and> take (length prefix) s = prefix)"

definition HasSuffix :: "string \<Rightarrow> string \<Rightarrow> bool" where
  "HasSuffix s suffix =
     (length suffix \<le> length s \<and> drop (length s - length suffix) s = suffix)"

definition TrimPrefix :: "string \<Rightarrow> string \<Rightarrow> string" where
  "TrimPrefix s prefix = (if HasPrefix s prefix then drop (length prefix) s else s)"

section \<open>The Python type mapper\<close>

text \<open>
  \<^verbatim>\<open>toPythonType\<close> of \<^verbatim>\<open>pkg/generator/python/python.go\<close>. The \<^verbatim>\<open>switch\<close> compares the
  token with each case in order; the \<^verbatim>\<open>default\<close> branch strips one collection marker
  \<^verbatim>\<open>[]\<close> and recurses, or answers \<^verbatim>\<open>Any\<close>. \<^verbatim>\<open>fmt.Sprintf("list[%s]", x)\<close> is the
  concatenation written out. The recursion is on a strictly shorter string.
\<close>

function toPythonType :: "string \<Rightarrow> string" where
  "toPythonType yamlType =
     (if yamlType \<in> {''string'', ''code'', ''id'', ''uri'', ''url''} then ''str''
      else if yamlType \<in> {''integer'', ''positiveInt'', ''unsignedInt''} then ''int''
      else if yamlType = ''decimal'' then ''float''
      else if yamlType = ''boolean'' then ''bool''
      else if yamlType = ''date'' then ''date''
      else if yamlType \<in> {''datetime'', ''instant''} then ''datetime''
      else if yamlType = ''base64Binary'' then ''bytes''
      else if HasPrefix yamlType ''[]''
        then ''list['' @ toPythonType (TrimPrefix yamlType ''[]'') @ '']''
      else ''Any'')"
  by pat_completeness auto
termination
  by (relation "measure length") (auto simp: HasPrefix_def TrimPrefix_def)

declare toPythonType.simps [simp del]

section \<open>Errors\<close>

text \<open>
  A Go \<^verbatim>\<open>error\<close> value. \<open>New msg\<close> is an error that carries the message \<open>msg\<close>:
  one made by \<^verbatim>\<open>fmt.Errorf\<close> without \<^verbatim>\<open>%w\<close>, or one returned by the operating system or
  a library. \<open>Wrapped prefix err\<close> is \<^verbatim>\<open>fmt.Errorf(prefix + ": %w", err)\<close>. The method
  \<^verbatim>\<open>Error()\<close> renders the message.
\<close>

datatype error = New string | Wrapped string error

fun Error :: "error \<Rightarrow> string" where
  "Error (New msg) = msg"
| "Error (Wrapped prefix err) = prefix @ '': '' @ Error err"

section \<open>The schema model\<close>

text \<open>The structs of \<^verbatim>\<open>pkg/schema/loader.go\<close>. \<^verbatim>\<open>Field\<close> is recursive through its children.\<close>

datatype Field = Field
  (Field_Name: string)
  (Field_Type: string)
  (Field_Required: bool)
  (Field_Description: string)
  (Field_PIILevel: string)
  (Field_Children: "Field list")

record Schema =
  Name :: string
  Resource :: string
  Description :: string
  Fields :: "Field list"
  SourceFile :: string
  Namespace :: string

definition GetName :: "Schema \<Rightarrow> string" where
  "GetName s = (if Name s \<noteq> [] then Name s else Resource s)"

record FieldMapping =
  Source :: string
  Target :: string
  Transform :: string

record SchemaMapping =
  SourceSystem :: string
  SourceTable :: string
  TargetResource :: string
  FieldMappings :: "FieldMapping list"
  Mapping_SourceFile :: string

section \<open>The schema loader\<close>

text \<open>
  The loader reads the file system through \<^verbatim>\<open>os.Stat\<close>, \<^verbatim>\<open>os.ReadDir\<close>,
  \<^verbatim>\<open>filepath.Glob\<close> and \<^verbatim>\<open>os.ReadFile\<close>, builds paths with \<^verbatim>\<open>filepath.Join\<close> and
  deserializes with \<^verbatim>\<open>yaml.Unmarshal\<close>. None of these is code of the repository: they are
  the fields of an environment the loader is given. A call that can fail returns the error
  on the left. Of \<^verbatim>\<open>os.Stat\<close> the loader inspects the error only. \<open>Unmarshal\<close> is
  \<^verbatim>\<open>yaml.Unmarshal\<close> into a fresh zero \<^verbatim>\<open>Schema\<close> (the variable is declared inside the
  loop body).
\<close>

record DirEntry =
  Entry_Name :: string
  IsDir :: bool

record Env =
  Stat :: "string \<Rightarrow> error option"
  ReadDir :: "string \<Rightarrow> error + DirEntry list"
  Glob :: "string \<Rightarrow> error + string list"
  ReadFile :: "string \<Rightarrow> error + string"
  Join :: "string \<Rightarrow> string \<Rightarrow> string"
  Unmarshal :: "string \<Rightarrow> error + Schema"

text \<open>
  The \<^verbatim>\<open>for _, file := range files\<close> loop of \<^verbatim>\<open>loadSchemaDir\<close>; \<open>schemas\<close> is the
  slice built so far. Each \<^verbatim>\<open>continue\<close> goes on with the remaining files and the slice
  as it is.
\<close>

fun loadSchemaFiles :: "Env \<Rightarrow> string \<Rightarrow> string list \<Rightarrow> Schema list \<Rightarrow> Schema list" where
  "loadSchemaFiles env namespace [] schemas = schemas"
| "loadSchemaFiles env namespace (file # files) schemas =
     (if HasSuffix file ''_mapping.yaml'' then loadSchemaFiles env namespace files schemas
      else case ReadFile env file of
        Inl err \<Rightarrow> loadSchemaFiles env namespace files schemas
      | Inr data \<Rightarrow>
          (case Unmarshal env data of
             Inl err \<Rightarrow> loadSchemaFiles env namespace files schemas
           | Inr schema \<Rightarrow>
               if GetName schema = [] then loadSchemaFiles env namespace files schemas
               else loadSchemaFiles env namespace files
                      (schemas @ [schema\<lparr>SourceFile := file, Namespace := namespace\<rparr>])))"

definition loadSchemaDir :: "Env \<Rightarrow> string \<Rightarrow> string \<Rightarrow> error + Schema list" where
  "loadSchemaDir env dir namespace =
     (case Glob env (Join env dir ''*.yaml'') of
        Inl err \<Rightarrow> Inl err
      | Inr files \<Rightarrow> Inr (loadSchemaFiles env namespace files []))"

text \<open>The \<^verbatim>\<open>for _, entry := range entries\<close> loop of \<^verbatim>\<open>LoadAll\<close>.\<close>

fun loadEntries :: "Env \<Rightarrow> string \<Rightarrow> DirEntry list \<Rightarrow> Schema list \<Rightarrow> Schema list" where
  "loadEntries env baseDir [] schemas = schemas"
| "loadEntries env baseDir (entry # entries) schemas =
     (if \<not> IsDir entry then loadEntries env baseDir entries schemas
      else let name = Entry_Name entry in
        if name = ''fhir_r4'' \<or> name = ''schema_overrides''
        then loadEntries env baseDir entries schemas
        else case loadSchemaDir env (Join env baseDir name) name of
          Inl err \<Rightarrow> loadEntries env baseDir entries schemas
        | Inr dirSchemas \<Rightarrow> loadEntries env baseDir entries (schemas @ dirSchemas))"

text \<open>
  The first block of \<^verbatim>\<open>LoadAll\<close>: the \<^verbatim>\<open>fhir_r4\<close> directory is loaded if \<^verbatim>\<open>os.Stat\<close>
  returns no error, and otherwise left out.
\<close>

definition loadFhir :: "Env \<Rightarrow> string \<Rightarrow> error + Schema list" where
  "loadFhir env baseDir =
     (let fhirDir = Join env baseDir ''fhir_r4'' in
      if Stat env fhirDir = None
      then case loadSchemaDir env fhirDir ''fhir_r4'' of
        Inl err \<Rightarrow> Inl (Wrapped ''failed to load fhir_r4'' err)
      | Inr fhirSchemas \<Rightarrow> Inr ([] @ fhirSchemas)
      else Inr [])"

definition LoadAll :: "Env \<Rightarrow> string \<Rightarrow> error + Schema list" where
  "LoadAll env baseDir =
     (case loadFhir env baseDir of
        Inl err \<Rightarrow> Inl err
      | Inr schemas \<Rightarrow>
          (case ReadDir env baseDir of
             Inl err \<Rightarrow> Inl (Wrapped ''failed to read schema dir'' err)
           | Inr entries \<Rightarrow> Inr (loadEntries env baseDir entries schemas)))"

section \<open>The Python generator\<close>

text \<open>
  The first loop of \<^verbatim>\<open>Generator.Generate\<close> groups the schemas by namespace in a Go map
  from the namespace to a slice. Reading a key that is absent gives the zero value, the
  empty slice.
\<close>

definition slice_at :: "(string \<rightharpoonup> Schema list) \<Rightarrow> string \<Rightarrow> Schema list" where
  "slice_at m k = (case m k of None \<Rightarrow> [] | Some xs \<Rightarrow> xs)"

fun groupSchemas :: "(string \<rightharpoonup> Schema list) \<Rightarrow> Schema list \<Rightarrow> (string \<rightharpoonup> Schema list)" where
  "groupSchemas byNamespace [] = byNamespace"
| "groupSchemas byNamespace (s # schemas) =
     groupSchemas (byNamespace(Namespace s \<mapsto> slice_at byNamespace (Namespace s) @ [s])) schemas"

definition byNamespace :: "Schema list \<Rightarrow> (string \<rightharpoonup> Schema list)" where
  "byNamespace schemas = groupSchemas Map.empty schemas"

text \<open>
  A generator acts on the output directory tree. The state of what it writes to is \<open>'w\<close>;
  a method returns its error (\<open>None\<close> for \<^verbatim>\<open>nil\<close>) and the state it leaves. The interface
  \<^verbatim>\<open>schema.Generator\<close> has two methods.
\<close>

record 'w Generator =
  Generate :: "Schema list \<Rightarrow> string \<Rightarrow> 'w \<Rightarrow> error option \<times> 'w"
  GenerateMappings :: "SchemaMapping list \<Rightarrow> string \<Rightarrow> 'w \<Rightarrow> error option \<times> 'w"

text \<open>\<^verbatim>\<open>GenerateMappings\<close> of the Python generator: its body is \<^verbatim>\<open>return nil\<close>.\<close>

definition python_GenerateMappings ::
    "SchemaMapping list \<Rightarrow> string \<Rightarrow> 'w \<Rightarrow> error option \<times> 'w" where
  "python_GenerateMappings mappings outputDir w = (None, w)"

section \<open>The generate command\<close>

text \<open>
  The \<^verbatim>\<open>switch language\<close> of \<^verbatim>\<open>generateCmd\<close> picks the package whose \<^verbatim>\<open>NewGenerator\<close>
  is called; a Go \<^verbatim>\<open>switch\<close> on strings compares for equality.
\<close>

datatype generator_package =
  python | golang | typescript | java | rust | csharp | scala | kotlin | sql

definition selectGenerator :: "string \<Rightarrow> error + generator_package" where
  "selectGenerator language =
     (if language = ''python'' then Inr python
      else if language \<in> {''go'', ''golang''} then Inr golang
      else if language \<in> {''typescript'', ''ts''} then Inr typescript
      else if language = ''java'' then Inr java
      else if language \<in> {''rust'', ''rs''} then Inr rust
      else if language \<in> {''csharp'', ''cs''} then Inr csharp
      else if language = ''scala'' then Inr scala
      else if language \<in> {''kotlin'', ''kt''} then Inr kotlin
      else if language \<in> {''sql'', ''dbt''} then Inr sql
      else Inl (New (''unsupported language: '' @ language)))"

text \<open>
  The \<^verbatim>\<open>RunE\<close> function of \<^verbatim>\<open>generateCmd\<close>. The flags \<^verbatim>\<open>schemaDir\<close>, \<^verbatim>\<open>outputDir\<close> and
  \<^verbatim>\<open>language\<close> are arguments. The generator packages are behind the interface, so
  \<open>NewGenerator\<close> gives the implementation of each package, and \<open>Printf\<close> is the write to
  the standard output.
\<close>

definition RunE ::
    "Env \<Rightarrow> (generator_package \<Rightarrow> 'w Generator) \<Rightarrow> (string \<Rightarrow> 'w \<Rightarrow> 'w) \<Rightarrow>
     string \<Rightarrow> string \<Rightarrow> string \<Rightarrow> 'w \<Rightarrow> error option \<times> 'w" where
  "RunE env NewGenerator Printf schemaDir outputDir language w =
     (case LoadAll env schemaDir of
        Inl err \<Rightarrow> (Some (Wrapped ''failed to load schemas'' err), w)
      | Inr schemas \<Rightarrow>
          (case selectGenerator language of
             Inl err \<Rightarrow> (Some err, w)
           | Inr package \<Rightarrow>
               (case Generate (NewGenerator package) schemas outputDir w of
                  (Some err, w') \<Rightarrow> (Some (Wrapped ''failed to generate code'' err), w')
                | (None, w') \<Rightarrow>
                    (None, Printf (''Generated '' @ language @ '' code in '' @ outputDir @ [CHR 0x0A]) w'))))"

section \<open>The override resolver\<close>

text \<open>
  Modelled from the spec: the field of the override resolver. The override merge is not
  part of \<^verbatim>\<open>pkg/schema/loader.go\<close> (the loader only leaves the \<^verbatim>\<open>schema_overrides\<close>
  directory out, and \<^verbatim>\<open>Field\<close> carries \<^verbatim>\<open>pii_level\<close> alone), so the field is the
  specification's: name, type, required, description, children, and the five
  protected-data attributes
  \<^verbatim>\<open>pii_level\<close>, \<^verbatim>\<open>pii_category\<close>, \<^verbatim>\<open>hipaa_identifier\<close>, \<^verbatim>\<open>masking_strategy\<close> and
  \<^verbatim>\<open>masking_params\<close>.
\<close>

datatype ProtectedField = ProtectedField
  (pf_name: string)
  (pf_type: string)
  (pf_required: bool)
  (pf_description: string)
  (pii_level: string)
  (pii_category: string)
  (hipaa_identifier: string)
  (masking_strategy: string)
  (masking_params: "(string \<times> string) list")
  (pf_children: "ProtectedField list")

text \<open>
  Modelled from the spec: an entry of the override document, a partial metadata object
  with only the protected-data keys; a key that is absent is \<open>None\<close>.
\<close>

record FieldOverride =
  override_pii_level :: "string option"
  override_pii_category :: "string option"
  override_hipaa_identifier :: "string option"
  override_masking_strategy :: "string option"
  override_masking_params :: "(string \<times> string) list option"

text \<open>
  Modelled from the spec: the override document, a documentary description and
  \<^verbatim>\<open>field_overrides\<close>, a mapping from field name to entry.
\<close>

record OverrideDocument =
  override_description :: string
  field_overrides :: "string \<rightharpoonup> FieldOverride"

text \<open>Modelled from the spec: the base schema that the resolver merges into.\<close>

record BaseSchema =
  base_name :: string
  base_description :: string
  base_fields :: "ProtectedField list"

text \<open>
  Modelled from the spec: an attribute that the entry gives replaces the field's; one that
  the entry leaves out stays.
\<close>

definition replaced :: "'a option \<Rightarrow> 'a \<Rightarrow> 'a" where
  "replaced new old = (case new of None \<Rightarrow> old | Some v \<Rightarrow> v)"

text \<open>
  Modelled from the spec: the merge of one field, recursing into the children. If the
  override document has an entry keyed by the field's name, only the protected-data
  attributes are replaced on a copy of the field; type, required and description are left
  as they are, and no field is added.
\<close>

fun mergeField :: "(string \<rightharpoonup> FieldOverride) \<Rightarrow> ProtectedField \<Rightarrow> ProtectedField" where
  "mergeField overrides
     (ProtectedField name type required description level category hipaa strategy params children) =
     (case overrides name of
        None \<Rightarrow>
          ProtectedField name type required description level category hipaa strategy params
            (map (mergeField overrides) children)
      | Some entry \<Rightarrow>
          ProtectedField name type required description
            (replaced (override_pii_level entry) level)
            (replaced (override_pii_category entry) category)
            (replaced (override_hipaa_identifier entry) hipaa)
            (replaced (override_masking_strategy entry) strategy)
            (replaced (override_masking_params entry) params)
            (map (mergeField overrides) children))"

text \<open>
  Modelled from the spec: \<^verbatim>\<open>Merge(base Schema, override OverrideDocument) -> Schema'\<close>, a
  pure function over each field of \<^verbatim>\<open>base.fields\<close>.
\<close>

definition Merge :: "BaseSchema \<Rightarrow> OverrideDocument \<Rightarrow> BaseSchema" where
  "Merge base override =
     base\<lparr>base_fields := map (mergeField (field_overrides override)) (base_fields base)\<rparr>"

text \<open>
  The view of a field tree in which the five protected-data attributes of every field whose
  name satisfies \<open>named\<close> are blanked, at every depth. Two trees with the same view differ
  at most in those attributes of those fields.
\<close>

fun blank_protection :: "(string \<Rightarrow> bool) \<Rightarrow> ProtectedField \<Rightarrow> ProtectedField" where
  "blank_protection named
     (ProtectedField name type required description level category hipaa strategy params children) =
     (if named name
      then ProtectedField name type required description [] [] [] [] []
             (map (blank_protection named) children)
      else ProtectedField name type required description level category hipaa strategy params
             (map (blank_protection named) children))"

section \<open>Notions used to state the properties\<close>

text \<open>
  A candidate file fails to deserialize when it cannot be read or when the document read
  from it is malformed.
\<close>

definition fails_to_deserialize :: "Env \<Rightarrow> string \<Rightarrow> bool" where
  "fails_to_deserialize env file =
     (case ReadFile env file of
        Inl err \<Rightarrow> True
      | Inr data \<Rightarrow> (case Unmarshal env data of Inl err \<Rightarrow> True | Inr schema \<Rightarrow> False))"

text \<open>The same environment with those files gone from every directory listing.\<close>

definition without_corrupt_files :: "Env \<Rightarrow> Env" where
  "without_corrupt_files env =
     env\<lparr>Glob := (\<lambda>pattern. case Glob env pattern of
        Inl err \<Rightarrow> Inl err
      | Inr files \<Rightarrow> Inr (filter (\<lambda>file. \<not> fails_to_deserialize env file) files))\<rparr>"

text \<open>
  A loaded schema comes from its source file: the file is readable, its document
  deserializes to a schema with a non-empty resolved name, and that name is the loaded
  schema's.
\<close>

definition parsed_with_name :: "Env \<Rightarrow> Schema \<Rightarrow> bool" where
  "parsed_with_name env s =
     (case ReadFile env (SourceFile s) of
        Inl err \<Rightarrow> False
      | Inr data \<Rightarrow>
          (case Unmarshal env data of
             Inl err \<Rightarrow> False
           | Inr schema \<Rightarrow> GetName schema \<noteq> [] \<and> GetName s = GetName schema))"

text \<open>
  What the loader is to return, written from the description of the directory tree rather
  than from the loops, to compare the loops with. A candidate file gives at most one
  schema: none if it is a mapping file, cannot be read, is malformed or resolves to the
  empty name, and otherwise its document with the file and the namespace stamped on.
\<close>

definition schema_of_file :: "Env \<Rightarrow> string \<Rightarrow> string \<Rightarrow> Schema list" where
  "schema_of_file env namespace file =
     (if HasSuffix file ''_mapping.yaml'' then []
      else case ReadFile env file of
        Inl err \<Rightarrow> []
      | Inr data \<Rightarrow>
          (case Unmarshal env data of
             Inl err \<Rightarrow> []
           | Inr schema \<Rightarrow>
               if GetName schema = [] then []
               else [schema\<lparr>SourceFile := file, Namespace := namespace\<rparr>]))"

text \<open>
  The schemas of the namespace directory \<open>name\<close> of the root: those of its \<^verbatim>\<open>*.yaml\<close>
  files in the order of the listing, and none if the listing fails.
\<close>

definition schemas_of_directory :: "Env \<Rightarrow> string \<Rightarrow> string \<Rightarrow> Schema list" where
  "schemas_of_directory env baseDir name =
     (case Glob env (Join env (Join env baseDir name) ''*.yaml'') of
        Inl err \<Rightarrow> []
      | Inr files \<Rightarrow> concat (map (schema_of_file env name) files))"

text \<open>
  An entry of the root that is a namespace other than the primary one: a directory that is
  neither \<^verbatim>\<open>fhir_r4\<close> nor the reserved \<^verbatim>\<open>schema_overrides\<close>.
\<close>

definition other_namespace :: "DirEntry \<Rightarrow> bool" where
  "other_namespace entry =
     (IsDir entry \<and> Entry_Name entry \<noteq> ''fhir_r4'' \<and> Entry_Name entry \<noteq> ''schema_overrides'')"

section \<open>A sample schema tree\<close>

text \<open>
  A root \<^verbatim>\<open>schemas\<close> with a file \<^verbatim>\<open>README.md\<close> and the directories \<^verbatim>\<open>fhir_r4\<close> (a
  schema that has \<^verbatim>\<open>resource\<close> only, a document with neither name, a malformed document
  and a mapping file), \<^verbatim>\<open>hl7v2\<close> (one schema that has both names) and
  \<^verbatim>\<open>schema_overrides\<close>. Listings are in the sorted order \<^verbatim>\<open>os.ReadDir\<close> and
  \<^verbatim>\<open>filepath.Glob\<close> return.
\<close>

definition patient_doc :: Schema where
  "patient_doc = \<lparr>Name = [], Resource = ''Patient'', Description = ''A patient'',
     Fields = [Field ''birthDate'' ''date'' False [] [] []], SourceFile = [], Namespace = []\<rparr>"

definition blank_doc :: Schema where
  "blank_doc = \<lparr>Name = [], Resource = [], Description = ''notes'',
     Fields = [], SourceFile = [], Namespace = []\<rparr>"

definition pid_doc :: Schema where
  "pid_doc = \<lparr>Name = ''PID'', Resource = ''Segment'', Description = [],
     Fields = [], SourceFile = [], Namespace = []\<rparr>"

definition sample_env :: Env where
  "sample_env = \<lparr>
     Stat = (\<lambda>path. if path \<in> {''schemas'', ''schemas/fhir_r4'', ''schemas/hl7v2''} then None
                    else Some (New ''no such file or directory'')),
     ReadDir = (\<lambda>path. if path = ''schemas''
        then Inr [\<lparr>Entry_Name = ''README.md'', IsDir = False\<rparr>,
                  \<lparr>Entry_Name = ''fhir_r4'', IsDir = True\<rparr>,
                  \<lparr>Entry_Name = ''hl7v2'', IsDir = True\<rparr>,
                  \<lparr>Entry_Name = ''schema_overrides'', IsDir = True\<rparr>]
        else Inl (New ''no such file or directory'')),
     Glob = (\<lambda>pattern. if pattern = ''schemas/fhir_r4/*.yaml''
        then Inr [''schemas/fhir_r4/blank.yaml'', ''schemas/fhir_r4/broken.yaml'',
                  ''schemas/fhir_r4/patient.yaml'', ''schemas/fhir_r4/patient_mapping.yaml'']
        else if pattern = ''schemas/hl7v2/*.yaml'' then Inr [''schemas/hl7v2/pid.yaml'']
        else Inr []),
     ReadFile = (\<lambda>path. if path = ''schemas/fhir_r4/blank.yaml'' then Inr ''description: notes''
        else if path = ''schemas/fhir_r4/broken.yaml'' then Inr ''fields: [''
        else if path = ''schemas/fhir_r4/patient.yaml'' then Inr ''resource: Patient''
        else if path = ''schemas/hl7v2/pid.yaml'' then Inr ''name: PID''
        else Inl (New ''no such file or directory'')),
     Join = (\<lambda>dir name. dir @ ''/'' @ name),
     Unmarshal = (\<lambda>data. if data = ''description: notes'' then Inr blank_doc
        else if data = ''resource: Patient'' then Inr patient_doc
        else if data = ''name: PID'' then Inr pid_doc
        else Inl (New ''yaml: did not find expected node content''))\<rparr>"

text \<open>The same tree after the directory \<^verbatim>\<open>fhir_r4\<close> is removed.\<close>

definition sample_env_no_fhir :: Env where
  "sample_env_no_fhir = sample_env\<lparr>
     Stat := (\<lambda>path. if path \<in> {''schemas'', ''schemas/hl7v2''} then None
                     else Some (New ''no such file or directory'')),
     ReadDir := (\<lambda>path. if path = ''schemas''
        then Inr [\<lparr>Entry_Name = ''README.md'', IsDir = False\<rparr>,
                  \<lparr>Entry_Name = ''hl7v2'', IsDir = True\<rparr>,
                  \<lparr>Entry_Name = ''schema_overrides'', IsDir = True\<rparr>]
        else Inl (New ''no such file or directory'')),
     Glob := (\<lambda>pattern. if pattern = ''schemas/hl7v2/*.yaml''
        then Inr [''schemas/hl7v2/pid.yaml''] else Inr [])\<rparr>"

text \<open>A working directory in which the root \<^verbatim>\<open>schemas\<close> does not exist.\<close>

definition sample_env_no_root :: Env where
  "sample_env_no_root = sample_env\<lparr>
     Stat := (\<lambda>path. Some (New ''no such file or directory'')),
     ReadDir := (\<lambda>path. Inl (New (''open '' @ path @ '': no such file or directory''))),
     Glob := (\<lambda>pattern. Inr []),
     ReadFile := (\<lambda>path. Inl (New ''no such file or directory''))\<rparr>"

text \<open>
  Generators that record the output directory they are asked to write to, and a standard
  output that records what is printed.
\<close>

definition recording_generator :: "generator_package \<Rightarrow> string list Generator" where
  "recording_generator package =
     \<lparr>Generate = (\<lambda>schemas outputDir w. (None, w @ [outputDir])),
      GenerateMappings = python_GenerateMappings\<rparr>"

definition recording_Printf :: "string \<Rightarrow> string list \<Rightarrow> string list" where
  "recording_Printf text w = w @ [text]"

lemmas sample_defs =
  sample_env_def sample_env_no_fhir_def sample_env_no_root_def
  patient_doc_def blank_doc_def pid_doc_def

section \<open>Properties of the type mapper\<close>

lemma toPythonType_marker:
  "toPythonType (''[]'' @ t) = ''list['' @ toPythonType t @ '']''"
  by (subst toPythonType.simps) (simp add: HasPrefix_def TrimPrefix_def)

lemma toPythonType_markers:
  "toPythonType (concat (replicate n ''[]'') @ t)
     = concat (replicate n ''list['') @ toPythonType t @ replicate n (CHR '']'')"
proof (induction n)
  case 0
  show ?case by simp
next
  case (Suc n)
  have "toPythonType (concat (replicate (Suc n) ''[]'') @ t)
      = toPythonType (''[]'' @ (concat (replicate n ''[]'') @ t))"
    by simp
  also have "\<dots> = ''list['' @ toPythonType (concat (replicate n ''[]'') @ t) @ '']''"
    by (rule toPythonType_marker)
  also have "\<dots> = ''list['' @ concat (replicate n ''list['') @ toPythonType t
      @ replicate n (CHR '']'') @ '']''"
    by (simp only: Suc.IH append_assoc)
  also have "replicate n (CHR '']'') @ '']'' = replicate (Suc n) (CHR '']'')"
    by (simp add: replicate_append_same)
  finally show ?case by simp
qed

lemma toPythonType_nonempty: "toPythonType t \<noteq> []"
  by (subst toPythonType.simps) simp

lemma toPythonType_fallback:
  "t \<notin> {''string'', ''code'', ''id'', ''uri'', ''url'', ''integer'', ''positiveInt'',
         ''unsignedInt'', ''decimal'', ''boolean'', ''date'', ''datetime'', ''instant'',
         ''base64Binary''} \<Longrightarrow> \<not> HasPrefix t ''[]'' \<Longrightarrow> toPythonType t = ''Any''"
  by (subst toPythonType.simps) simp

text \<open>
  Claim C4. The type mapper is total: it is defined by a terminating recursion, every
  token maps to a non-empty type, and a token that is none of the recognized scalar tokens
  and does not start with the collection marker maps to the fallback \<^verbatim>\<open>Any\<close>.
\<close>

theorem toPythonType_total:
  "toPythonType t \<noteq> [] \<and>
   (t \<notin> {''string'', ''code'', ''id'', ''uri'', ''url'', ''integer'', ''positiveInt'',
          ''unsignedInt'', ''decimal'', ''boolean'', ''date'', ''datetime'', ''instant'',
          ''base64Binary''} \<and> \<not> HasPrefix t ''[]''
      \<longrightarrow> toPythonType t = ''Any'')"
proof (intro conjI impI)
  show "toPythonType t \<noteq> []"
    by (rule toPythonType_nonempty)
next
  assume "t \<notin> {''string'', ''code'', ''id'', ''uri'', ''url'', ''integer'', ''positiveInt'',
          ''unsignedInt'', ''decimal'', ''boolean'', ''date'', ''datetime'', ''instant'',
          ''base64Binary''} \<and> \<not> HasPrefix t ''[]''"
  then show "toPythonType t = ''Any''"
    by (elim conjE) (rule toPythonType_fallback)
qed

text \<open>Claim C4, at the unrecognized token \<^verbatim>\<open>Quantity\<close>.\<close>

theorem toPythonType_total_witness:
  "''Quantity'' \<notin> {''string'', ''code'', ''id'', ''uri'', ''url'', ''integer'', ''positiveInt'',
          ''unsignedInt'', ''decimal'', ''boolean'', ''date'', ''datetime'', ''instant'',
          ''base64Binary''} \<and> \<not> HasPrefix ''Quantity'' ''[]''
   \<and> toPythonType ''Quantity'' \<noteq> [] \<and> toPythonType ''Quantity'' = ''Any''"
proof -
  have h: "''Quantity'' \<notin> {''string'', ''code'', ''id'', ''uri'', ''url'', ''integer'',
          ''positiveInt'', ''unsignedInt'', ''decimal'', ''boolean'', ''date'', ''datetime'',
          ''instant'', ''base64Binary''} \<and> \<not> HasPrefix ''Quantity'' ''[]''"
    by (simp add: HasPrefix_def)
  note total = toPythonType_total [of "''Quantity''"]
  have a: "toPythonType ''Quantity'' \<noteq> []"
    using total by (rule conjunct1)
  have b: "toPythonType ''Quantity'' = ''Any''"
    using total [THEN conjunct2, rule_format, OF h] .
  show ?thesis
    using h a b by (intro conjI) (erule conjunct1, erule conjunct2)
qed

text \<open>
  Claim C5. A token that starts with the collection marker maps to the list of what the
  rest of the token maps to, for every rest; so \<open>n\<close> markers in front of a token give
  \<open>n\<close> nested lists around its mapping.
\<close>

theorem toPythonType_nested_collections:
  "toPythonType (''[]'' @ t) = ''list['' @ toPythonType t @ '']'' \<and>
   toPythonType (concat (replicate n ''[]'') @ t)
     = concat (replicate n ''list['') @ toPythonType t @ replicate n (CHR '']'')"
  by (intro conjI) (rule toPythonType_marker, rule toPythonType_markers)

section \<open>Properties of the generator\<close>

lemma groupSchemas_at:
  "groupSchemas m schemas ns =
     (if ns \<in> Namespace ` set schemas
      then Some (slice_at m ns @ filter (\<lambda>s. Namespace s = ns) schemas)
      else m ns)"
proof (induction schemas arbitrary: m)
  case Nil
  show ?case by simp
next
  case (Cons s schemas)
  have none: "ns \<notin> Namespace ` set schemas \<Longrightarrow> filter (\<lambda>s. Namespace s = ns) schemas = []"
    by (auto simp: filter_empty_conv)
  show ?case
    by (auto simp: Cons.IH slice_at_def none)
qed

text \<open>
  Claim C7. The group of a namespace is the subsequence of the input made of the schemas of
  that namespace, in the order of the input; a namespace that no schema has is no key of
  the map.
\<close>

theorem byNamespace_stable_partition:
  "byNamespace schemas ns =
     (if ns \<in> Namespace ` set schemas
      then Some (filter (\<lambda>s. Namespace s = ns) schemas)
      else None)"
  by (simp add: byNamespace_def groupSchemas_at slice_at_def)

text \<open>
  Claim C10. \<^verbatim>\<open>GenerateMappings\<close> of the Python generator returns \<^verbatim>\<open>nil\<close> for every list
  of mappings and every output directory, and leaves what it could write to as it was.
\<close>

theorem python_GenerateMappings_noop:
  "python_GenerateMappings mappings outputDir w = (None, w)"
  by (simp add: python_GenerateMappings_def)

section \<open>Properties of the generate command\<close>

text \<open>
  Claim C3, as the code has it. The identifier is compared exactly, byte for byte: the two
  identifiers of each synonym pair select one package, and an identifier is accepted only
  if it is one of the fifteen lower-case identifiers of the \<^verbatim>\<open>switch\<close>.
\<close>

theorem selectGenerator_synonyms:
  "selectGenerator ''rs'' = selectGenerator ''rust'' \<and> selectGenerator ''rust'' = Inr rust
   \<and> selectGenerator ''go'' = selectGenerator ''golang'' \<and> selectGenerator ''golang'' = Inr golang
   \<and> selectGenerator ''ts'' = selectGenerator ''typescript''
   \<and> selectGenerator ''typescript'' = Inr typescript
   \<and> selectGenerator ''cs'' = selectGenerator ''csharp'' \<and> selectGenerator ''csharp'' = Inr csharp
   \<and> selectGenerator ''kt'' = selectGenerator ''kotlin'' \<and> selectGenerator ''kotlin'' = Inr kotlin
   \<and> selectGenerator ''dbt'' = selectGenerator ''sql'' \<and> selectGenerator ''sql'' = Inr sql
   \<and> (\<exists>package. selectGenerator language = Inr package) =
       (language \<in> {''python'', ''go'', ''golang'', ''typescript'', ''ts'', ''java'', ''rust'',
          ''rs'', ''csharp'', ''cs'', ''scala'', ''kotlin'', ''kt'', ''sql'', ''dbt''})"
  by (simp add: selectGenerator_def)

text \<open>
  Claim C3, as stated, fails: the identifier \<^verbatim>\<open>RS\<close> differs from \<^verbatim>\<open>rs\<close> in case only,
  and it is rejected while \<^verbatim>\<open>rs\<close> selects the Rust generator.
\<close>

theorem selectGenerator_case_sensitive:
  "selectGenerator ''rs'' = Inr rust \<and>
   selectGenerator ''RS'' = Inl (New ''unsupported language: RS'')"
  by (simp add: selectGenerator_def)


section \<open>Properties of the loader\<close>

lemma GetName_stamp:
  "GetName (s\<lparr>SourceFile := f, Namespace := n\<rparr>) = GetName s"
  by (simp add: GetName_def)

lemma loadSchemaFiles_parsed:
  "\<forall>s \<in> set schemas. parsed_with_name env s \<Longrightarrow>
   \<forall>s \<in> set (loadSchemaFiles env ns files schemas). parsed_with_name env s"
proof (induction files arbitrary: schemas)
  case Nil
  then show ?case by simp
next
  case (Cons path paths)
  show ?case
  proof (cases "\<exists>data schema. \<not> HasSuffix path ''_mapping.yaml'' \<and> ReadFile env path = Inr data
      \<and> Unmarshal env data = Inr schema \<and> GetName schema \<noteq> []")
    case True
    then obtain data schema where
      f: "\<not> HasSuffix path ''_mapping.yaml''" "ReadFile env path = Inr data"
         "Unmarshal env data = Inr schema" "GetName schema \<noteq> []"
      by blast
    let ?s = "schema\<lparr>SourceFile := path, Namespace := ns\<rparr>"
    have "parsed_with_name env ?s"
      using f by (simp add: parsed_with_name_def GetName_stamp)
    with Cons.prems have "\<forall>s \<in> set (schemas @ [?s]). parsed_with_name env s"
      by simp
    from Cons.IH [OF this] show ?thesis
      using f by simp
  next
    case False
    then have "loadSchemaFiles env ns (path # paths) schemas = loadSchemaFiles env ns paths schemas"
      by (auto split: sum.splits)
    with Cons.IH [OF Cons.prems] show ?thesis
      by simp
  qed
qed

lemma loadSchemaDir_parsed:
  "loadSchemaDir env dir ns = Inr schemas \<Longrightarrow> \<forall>s \<in> set schemas. parsed_with_name env s"
  using loadSchemaFiles_parsed [of "[]" env ns]
  by (auto simp: loadSchemaDir_def split: sum.splits)

lemma loadEntries_parsed:
  "\<forall>s \<in> set schemas. parsed_with_name env s \<Longrightarrow>
   \<forall>s \<in> set (loadEntries env baseDir entries schemas). parsed_with_name env s"
proof (induction entries arbitrary: schemas)
  case Nil
  then show ?case by simp
next
  case (Cons entry entries)
  show ?case
  proof (cases "loadSchemaDir env (Join env baseDir (Entry_Name entry)) (Entry_Name entry)")
    case (Inl err)
    with Cons.IH [OF Cons.prems] show ?thesis
      by (simp add: Let_def)
  next
    case (Inr dirSchemas)
    from loadSchemaDir_parsed [OF Inr] Cons.prems
    have "\<forall>s \<in> set (schemas @ dirSchemas). parsed_with_name env s"
      by auto
    from Cons.IH [OF this] Cons.IH [OF Cons.prems] Inr show ?thesis
      by (simp add: Let_def)
  qed
qed

lemma LoadAll_parsed:
  assumes "LoadAll env baseDir = Inr schemas"
  shows "\<forall>s \<in> set schemas. parsed_with_name env s"
proof -
  from assms obtain fhir entries where
    fhir: "loadFhir env baseDir = Inr fhir" and
    res: "schemas = loadEntries env baseDir entries fhir"
    by (auto simp: LoadAll_def split: sum.splits)
  have "\<forall>s \<in> set fhir. parsed_with_name env s"
    using fhir loadSchemaDir_parsed
    by (auto simp: loadFhir_def Let_def split: if_splits sum.splits)
  then show ?thesis
    unfolding res by (rule loadEntries_parsed)
qed

lemma parsed_with_name_nonempty: "parsed_with_name env s \<Longrightarrow> GetName s \<noteq> []"
  by (auto simp: parsed_with_name_def split: sum.splits)

lemma parsed_with_name_source:
  "parsed_with_name env s \<Longrightarrow> ReadFile env (SourceFile s) = Inr data \<Longrightarrow>
   Unmarshal env data = Inr schema \<Longrightarrow> GetName schema \<noteq> []"
  by (auto simp: parsed_with_name_def split: sum.splits)

lemma sample_LoadAll:
  "LoadAll sample_env ''schemas'' =
     Inr [patient_doc\<lparr>SourceFile := ''schemas/fhir_r4/patient.yaml'', Namespace := ''fhir_r4''\<rparr>,
          pid_doc\<lparr>SourceFile := ''schemas/hl7v2/pid.yaml'', Namespace := ''hl7v2''\<rparr>]"
  by (simp add: LoadAll_def loadFhir_def loadSchemaDir_def HasSuffix_def GetName_def sample_defs)

text \<open>
  Claim C1. The resolved name is \<^verbatim>\<open>name\<close> when that is non-empty and \<^verbatim>\<open>resource\<close>
  otherwise. Every schema of the collection that \<^verbatim>\<open>LoadAll\<close> returns has a non-empty
  resolved name, and a file whose document resolves to the empty name is the source file
  of none of them.
\<close>

theorem GetName_resolves_and_empty_excluded:
  "GetName s = (if Name s \<noteq> [] then Name s else Resource s) \<and>
   (LoadAll env baseDir = Inr schemas \<longrightarrow>
      (\<forall>loaded \<in> set schemas. GetName loaded \<noteq> []) \<and>
      (\<forall>file data schema.
         ReadFile env file = Inr data \<and> Unmarshal env data = Inr schema \<and> GetName schema = []
         \<longrightarrow> file \<notin> SourceFile ` set schemas))"
proof (intro conjI impI allI ballI)
  show "GetName s = (if Name s \<noteq> [] then Name s else Resource s)"
    by (simp add: GetName_def)
next
  fix loaded
  assume "LoadAll env baseDir = Inr schemas" "loaded \<in> set schemas"
  then show "GetName loaded \<noteq> []"
    using LoadAll_parsed parsed_with_name_nonempty by blast
next
  fix path data schema
  assume all: "LoadAll env baseDir = Inr schemas"
    and doc: "ReadFile env path = Inr data \<and> Unmarshal env data = Inr schema \<and> GetName schema = []"
  show "path \<notin> SourceFile ` set schemas"
  proof
    assume "path \<in> SourceFile ` set schemas"
    then obtain loaded where l: "loaded \<in> set schemas" "SourceFile loaded = path"
      by auto
    from LoadAll_parsed [OF all] l have "parsed_with_name env loaded"
      by simp
    moreover have "ReadFile env (SourceFile loaded) = Inr data" "Unmarshal env data = Inr schema"
      using l doc by simp_all
    ultimately have "GetName schema \<noteq> []"
      by (rule parsed_with_name_source)
    with doc show False
      by simp
  qed
qed

text \<open>
  Claim C1, on the sample tree: \<^verbatim>\<open>patient.yaml\<close> has \<^verbatim>\<open>resource\<close> only and resolves to
  it, \<^verbatim>\<open>pid.yaml\<close> has both and resolves to \<^verbatim>\<open>name\<close>, and \<^verbatim>\<open>blank.yaml\<close>, which has
  neither, is not among the source files.
\<close>

theorem GetName_resolves_and_empty_excluded_witness:
  "LoadAll sample_env ''schemas'' =
     Inr [patient_doc\<lparr>SourceFile := ''schemas/fhir_r4/patient.yaml'', Namespace := ''fhir_r4''\<rparr>,
          pid_doc\<lparr>SourceFile := ''schemas/hl7v2/pid.yaml'', Namespace := ''hl7v2''\<rparr>]
   \<and> ReadFile sample_env ''schemas/fhir_r4/blank.yaml'' = Inr ''description: notes''
   \<and> Unmarshal sample_env ''description: notes'' = Inr blank_doc
   \<and> GetName blank_doc = []
   \<and> GetName patient_doc = ''Patient'' \<and> GetName pid_doc = ''PID''
   \<and> ''schemas/fhir_r4/blank.yaml'' \<notin> SourceFile `
        set [patient_doc\<lparr>SourceFile := ''schemas/fhir_r4/patient.yaml'', Namespace := ''fhir_r4''\<rparr>,
             pid_doc\<lparr>SourceFile := ''schemas/hl7v2/pid.yaml'', Namespace := ''hl7v2''\<rparr>]"
proof -
  let ?loaded =
    "[patient_doc\<lparr>SourceFile := ''schemas/fhir_r4/patient.yaml'', Namespace := ''fhir_r4''\<rparr>,
      pid_doc\<lparr>SourceFile := ''schemas/hl7v2/pid.yaml'', Namespace := ''hl7v2''\<rparr>]"
  have doc: "ReadFile sample_env ''schemas/fhir_r4/blank.yaml'' = Inr ''description: notes''
      \<and> Unmarshal sample_env ''description: notes'' = Inr blank_doc
      \<and> GetName blank_doc = []"
    by (simp add: sample_defs GetName_def)
  note c1 = GetName_resolves_and_empty_excluded
  from c1 [of _ sample_env "''schemas''" ?loaded, THEN conjunct2, rule_format, OF sample_LoadAll]
  have "\<forall>file data schema.
      ReadFile sample_env file = Inr data \<and> Unmarshal sample_env data = Inr schema
        \<and> GetName schema = []
      \<longrightarrow> file \<notin> SourceFile ` set ?loaded"
    by (rule conjunct2)
  from this [rule_format, OF doc]
  have out: "''schemas/fhir_r4/blank.yaml'' \<notin> SourceFile ` set ?loaded" .
  have names: "GetName patient_doc = ''Patient'' \<and> GetName pid_doc = ''PID''"
    using c1 [of patient_doc] c1 [of pid_doc] by (simp add: patient_doc_def pid_doc_def)
  show ?thesis
    using sample_LoadAll doc out names by simp
qed


lemma LoadAll_fhir_error:
  "(\<exists>err. LoadAll env baseDir = Inl (Wrapped ''failed to load fhir_r4'' err)) =
   (Stat env (Join env baseDir ''fhir_r4'') = None \<and>
    (\<exists>err. Glob env (Join env (Join env baseDir ''fhir_r4'') ''*.yaml'') = Inl err))"
  by (auto simp: LoadAll_def loadFhir_def loadSchemaDir_def Let_def split: sum.splits)

lemma loadSchemaFiles_schema_of_file:
  "loadSchemaFiles env ns files schemas = schemas @ concat (map (schema_of_file env ns) files)"
proof (induction files arbitrary: schemas)
  case Nil
  show ?case by simp
next
  case (Cons path paths)
  show ?case
    by (simp add: Cons.IH schema_of_file_def split: sum.splits)
qed

lemma loadSchemaDir_schemas_of_directory:
  "(case loadSchemaDir env (Join env baseDir name) name of
      Inl err \<Rightarrow> [] | Inr dirSchemas \<Rightarrow> dirSchemas) = schemas_of_directory env baseDir name"
  by (simp add: loadSchemaDir_def schemas_of_directory_def loadSchemaFiles_schema_of_file
      split: sum.splits)

lemma loadEntries_schemas_of_directory:
  "loadEntries env baseDir entries schemas =
     schemas @ concat (map (\<lambda>entry. schemas_of_directory env baseDir (Entry_Name entry))
                         (filter other_namespace entries))"
proof (induction entries arbitrary: schemas)
  case Nil
  show ?case by simp
next
  case (Cons entry entries)
  note dir = loadSchemaDir_schemas_of_directory [of env baseDir "Entry_Name entry", symmetric]
  show ?case
    by (simp add: Cons.IH other_namespace_def Let_def dir split: sum.splits)
qed

lemma schema_of_file_namespace:
  "s \<in> set (schema_of_file env ns path) \<Longrightarrow> Namespace s = ns"
  by (auto simp: schema_of_file_def split: if_splits sum.splits)

lemma schemas_of_directory_namespace:
  "s \<in> set (schemas_of_directory env baseDir name) \<Longrightarrow> Namespace s = name"
  by (auto simp: schemas_of_directory_def split: sum.splits dest: schema_of_file_namespace)

lemma other_namespaces_not_fhir:
  "s \<in> set (concat (map (\<lambda>entry. schemas_of_directory env baseDir (Entry_Name entry))
                         (filter other_namespace entries))) \<Longrightarrow> Namespace s \<noteq> ''fhir_r4''"
  by (auto simp: other_namespace_def dest!: schemas_of_directory_namespace)

lemma LoadAll_fhir_skipped:
  "Stat env (Join env baseDir ''fhir_r4'') \<noteq> None \<Longrightarrow>
   LoadAll env baseDir =
     (case ReadDir env baseDir of
        Inl err \<Rightarrow> Inl (Wrapped ''failed to read schema dir'' err)
      | Inr entries \<Rightarrow>
          Inr (concat (map (\<lambda>entry. schemas_of_directory env baseDir (Entry_Name entry))
                         (filter other_namespace entries))))"
  by (auto simp: LoadAll_def loadFhir_def Let_def loadEntries_schemas_of_directory
      split: sum.splits)

lemma LoadAll_no_fhir_namespace:
  assumes "Stat env (Join env baseDir ''fhir_r4'') \<noteq> None"
    and "LoadAll env baseDir = Inr schemas"
    and "s \<in> set schemas"
  shows "Namespace s \<noteq> ''fhir_r4''"
proof -
  from LoadAll_fhir_skipped [OF assms(1)] assms(2) obtain entries where
    "schemas = concat (map (\<lambda>entry. schemas_of_directory env baseDir (Entry_Name entry))
                         (filter other_namespace entries))"
    by (auto split: sum.splits)
  with assms(3) show ?thesis
    using other_namespaces_not_fhir by blast
qed

text \<open>
  Claim C2, as the code has it. When \<^verbatim>\<open>os.Stat\<close> fails on the \<^verbatim>\<open>fhir_r4\<close> directory
  (the directory is absent), \<^verbatim>\<open>LoadAll\<close> leaves that namespace out: it fails only if the
  root itself cannot be read, and otherwise returns, in the order of the listing of the
  root, the schemas of every other namespace directory, file by file, and no schema of the
  namespace \<^verbatim>\<open>fhir_r4\<close>. The error \<^verbatim>\<open>failed to load fhir_r4\<close> is returned exactly when
  \<^verbatim>\<open>os.Stat\<close> succeeds on the directory and \<^verbatim>\<open>filepath.Glob\<close> on its \<^verbatim>\<open>*.yaml\<close> pattern
  returns an error.
\<close>

theorem LoadAll_fhir_r4_absent_is_skipped:
  "(Stat env (Join env baseDir ''fhir_r4'') \<noteq> None \<longrightarrow>
      LoadAll env baseDir =
        (case ReadDir env baseDir of
           Inl err \<Rightarrow> Inl (Wrapped ''failed to read schema dir'' err)
         | Inr entries \<Rightarrow>
             Inr (concat (map (\<lambda>entry. schemas_of_directory env baseDir (Entry_Name entry))
                            (filter other_namespace entries))))
      \<and> (\<forall>schemas. LoadAll env baseDir = Inr schemas \<longrightarrow>
            (\<forall>s \<in> set schemas. Namespace s \<noteq> ''fhir_r4'')))
   \<and> ((\<exists>err. LoadAll env baseDir = Inl (Wrapped ''failed to load fhir_r4'' err)) =
       (Stat env (Join env baseDir ''fhir_r4'') = None \<and>
        (\<exists>err. Glob env (Join env (Join env baseDir ''fhir_r4'') ''*.yaml'') = Inl err)))"
proof (intro conjI impI allI ballI)
  assume "Stat env (Join env baseDir ''fhir_r4'') \<noteq> None"
  then show "LoadAll env baseDir =
        (case ReadDir env baseDir of
           Inl err \<Rightarrow> Inl (Wrapped ''failed to read schema dir'' err)
         | Inr entries \<Rightarrow>
             Inr (concat (map (\<lambda>entry. schemas_of_directory env baseDir (Entry_Name entry))
                            (filter other_namespace entries))))"
    by (rule LoadAll_fhir_skipped)
next
  fix schemas s
  assume "Stat env (Join env baseDir ''fhir_r4'') \<noteq> None"
    "LoadAll env baseDir = Inr schemas" "s \<in> set schemas"
  then show "Namespace s \<noteq> ''fhir_r4''"
    by (rule LoadAll_no_fhir_namespace)
next
  show "(\<exists>err. LoadAll env baseDir = Inl (Wrapped ''failed to load fhir_r4'' err)) =
       (Stat env (Join env baseDir ''fhir_r4'') = None \<and>
        (\<exists>err. Glob env (Join env (Join env baseDir ''fhir_r4'') ''*.yaml'') = Inl err))"
    by (rule LoadAll_fhir_error)
qed

text \<open>
  Claim C2 as amended, on the sample tree without its \<^verbatim>\<open>fhir_r4\<close> directory: the result
  is the one schema of \<^verbatim>\<open>hl7v2\<close>, the namespace that is left.
\<close>

theorem LoadAll_fhir_r4_absent_is_skipped_witness:
  "Stat sample_env_no_fhir (Join sample_env_no_fhir ''schemas'' ''fhir_r4'') \<noteq> None \<and>
   LoadAll sample_env_no_fhir ''schemas'' =
     Inr [pid_doc\<lparr>SourceFile := ''schemas/hl7v2/pid.yaml'', Namespace := ''hl7v2''\<rparr>] \<and>
   Namespace (pid_doc\<lparr>SourceFile := ''schemas/hl7v2/pid.yaml'', Namespace := ''hl7v2''\<rparr>)
     \<noteq> ''fhir_r4''"
proof -
  let ?loaded = "[pid_doc\<lparr>SourceFile := ''schemas/hl7v2/pid.yaml'', Namespace := ''hl7v2''\<rparr>]"
  have absent: "Stat sample_env_no_fhir (Join sample_env_no_fhir ''schemas'' ''fhir_r4'') \<noteq> None"
    by (simp add: sample_defs)
  note c2 = LoadAll_fhir_r4_absent_is_skipped [of sample_env_no_fhir "''schemas''",
      THEN conjunct1, rule_format, OF absent]
  from c2 [THEN conjunct1]
  have loaded: "LoadAll sample_env_no_fhir ''schemas'' = Inr ?loaded"
    by (simp add: other_namespace_def schemas_of_directory_def schema_of_file_def
        HasSuffix_def GetName_def sample_defs)
  have "pid_doc\<lparr>SourceFile := ''schemas/hl7v2/pid.yaml'', Namespace := ''hl7v2''\<rparr> \<in> set ?loaded"
    by simp
  from c2 [THEN conjunct2, rule_format, OF loaded this]
  have "Namespace (pid_doc\<lparr>SourceFile := ''schemas/hl7v2/pid.yaml'', Namespace := ''hl7v2''\<rparr>)
      \<noteq> ''fhir_r4''" .
  with absent loaded show ?thesis
    by (intro conjI)
qed

text \<open>
  Claim C2, as stated, fails: on the sample tree without its \<^verbatim>\<open>fhir_r4\<close> directory
  \<^verbatim>\<open>LoadAll\<close> returns no error but the one schema of the namespace that is left.
\<close>

theorem LoadAll_fhir_r4_absent_no_error:
  "Stat sample_env_no_fhir (Join sample_env_no_fhir ''schemas'' ''fhir_r4'')
     = Some (New ''no such file or directory'') \<and>
   LoadAll sample_env_no_fhir ''schemas'' =
     Inr [pid_doc\<lparr>SourceFile := ''schemas/hl7v2/pid.yaml'', Namespace := ''hl7v2''\<rparr>]"
  by (simp add: LoadAll_def loadFhir_def loadSchemaDir_def HasSuffix_def GetName_def sample_defs)

lemma fails_to_deserialize_skipped:
  "fails_to_deserialize env path \<Longrightarrow>
   loadSchemaFiles env ns (path # paths) schemas = loadSchemaFiles env ns paths schemas"
  by (auto simp: fails_to_deserialize_def split: sum.splits)

lemma loadSchemaFiles_concat:
  "loadSchemaFiles env ns (before @ after) schemas
     = loadSchemaFiles env ns after (loadSchemaFiles env ns before schemas)"
  by (induction before arbitrary: schemas) (simp_all split: sum.splits)

lemma loadSchemaFiles_without_corrupt:
  "loadSchemaFiles (without_corrupt_files env) ns
      (filter (\<lambda>file. \<not> fails_to_deserialize env file) files) schemas
   = loadSchemaFiles env ns files schemas"
proof (induction files arbitrary: schemas)
  case Nil
  show ?case by simp
next
  case (Cons path paths)
  show ?case
  proof (cases "fails_to_deserialize env path")
    case True
    then show ?thesis
      using Cons.IH by (simp add: fails_to_deserialize_skipped del: loadSchemaFiles.simps)
  next
    case False
    then show ?thesis
      using Cons.IH by (simp add: without_corrupt_files_def split: sum.splits)
  qed
qed

lemma loadSchemaDir_without_corrupt:
  "loadSchemaDir (without_corrupt_files env) dir ns = loadSchemaDir env dir ns"
proof (cases "Glob env (Join env dir ''*.yaml'')")
  case (Inl err)
  then show ?thesis
    by (simp add: loadSchemaDir_def without_corrupt_files_def)
next
  case (Inr files)
  have "loadSchemaDir (without_corrupt_files env) dir ns
      = Inr (loadSchemaFiles (without_corrupt_files env) ns
               (filter (\<lambda>file. \<not> fails_to_deserialize env file) files) [])"
    using Inr by (simp add: loadSchemaDir_def without_corrupt_files_def)
  also have "\<dots> = loadSchemaDir env dir ns"
    using Inr by (simp add: loadSchemaFiles_without_corrupt loadSchemaDir_def)
  finally show ?thesis .
qed

lemma loadEntries_without_corrupt:
  "loadEntries (without_corrupt_files env) baseDir entries schemas
   = loadEntries env baseDir entries schemas"
proof (induction entries arbitrary: schemas)
  case Nil
  show ?case by simp
next
  case (Cons entry entries)
  have j: "Join (without_corrupt_files env) = Join env"
    by (simp add: without_corrupt_files_def)
  show ?case
    by (simp add: Cons.IH loadSchemaDir_without_corrupt j Let_def split: sum.splits)
qed

lemma LoadAll_without_corrupt:
  "LoadAll (without_corrupt_files env) baseDir = LoadAll env baseDir"
proof -
  have s: "Join (without_corrupt_files env) = Join env"
    "Stat (without_corrupt_files env) = Stat env"
    "ReadDir (without_corrupt_files env) = ReadDir env"
    by (simp_all add: without_corrupt_files_def)
  have "loadFhir (without_corrupt_files env) baseDir = loadFhir env baseDir"
    by (simp add: loadFhir_def s loadSchemaDir_without_corrupt Let_def)
  then show ?thesis
    by (simp add: LoadAll_def s loadEntries_without_corrupt split: sum.splits)
qed

text \<open>
  Claim C6. A candidate file that cannot be read or whose document is malformed is skipped:
  the loop goes on with the files after it and with the schemas already loaded from the
  files before it. So \<^verbatim>\<open>LoadAll\<close> returns the same result, error or schemas in the same
  order, as on the tree from which every such file is taken away.
\<close>

theorem corrupt_files_are_skipped:
  "(fails_to_deserialize env file \<longrightarrow>
      loadSchemaFiles env ns (before @ file # after) schemas
        = loadSchemaFiles env ns (before @ after) schemas)
   \<and> LoadAll (without_corrupt_files env) baseDir = LoadAll env baseDir"
proof (intro conjI impI)
  assume "fails_to_deserialize env file"
  then show "loadSchemaFiles env ns (before @ file # after) schemas
      = loadSchemaFiles env ns (before @ after) schemas"
    by (simp only: loadSchemaFiles_concat fails_to_deserialize_skipped)
next
  show "LoadAll (without_corrupt_files env) baseDir = LoadAll env baseDir"
    by (rule LoadAll_without_corrupt)
qed

text \<open>
  Claim C6, on the sample tree: \<^verbatim>\<open>broken.yaml\<close> is malformed, and the listing of
  \<^verbatim>\<open>fhir_r4\<close> loads the same schemas with it and without it.
\<close>

theorem corrupt_files_are_skipped_witness:
  "fails_to_deserialize sample_env ''schemas/fhir_r4/broken.yaml'' \<and>
   loadSchemaFiles sample_env ''fhir_r4''
      ([''schemas/fhir_r4/blank.yaml''] @ ''schemas/fhir_r4/broken.yaml'' #
       [''schemas/fhir_r4/patient.yaml'', ''schemas/fhir_r4/patient_mapping.yaml'']) []
     = [patient_doc\<lparr>SourceFile := ''schemas/fhir_r4/patient.yaml'', Namespace := ''fhir_r4''\<rparr>]
   \<and> LoadAll (without_corrupt_files sample_env) ''schemas'' = LoadAll sample_env ''schemas''"
proof -
  have broken: "fails_to_deserialize sample_env ''schemas/fhir_r4/broken.yaml''"
    by (simp add: fails_to_deserialize_def sample_defs)
  note c6 = corrupt_files_are_skipped [of sample_env "''schemas/fhir_r4/broken.yaml''"
      "''fhir_r4''" "[''schemas/fhir_r4/blank.yaml'']"
      "[''schemas/fhir_r4/patient.yaml'', ''schemas/fhir_r4/patient_mapping.yaml'']" "[]"
      "''schemas''"]
  from c6 [THEN conjunct1, rule_format, OF broken]
  have "loadSchemaFiles sample_env ''fhir_r4''
      ([''schemas/fhir_r4/blank.yaml''] @ ''schemas/fhir_r4/broken.yaml'' #
       [''schemas/fhir_r4/patient.yaml'', ''schemas/fhir_r4/patient_mapping.yaml'']) []
    = loadSchemaFiles sample_env ''fhir_r4''
      ([''schemas/fhir_r4/blank.yaml''] @
       [''schemas/fhir_r4/patient.yaml'', ''schemas/fhir_r4/patient_mapping.yaml'']) []" .
  also have "\<dots> =
      [patient_doc\<lparr>SourceFile := ''schemas/fhir_r4/patient.yaml'', Namespace := ''fhir_r4''\<rparr>]"
    by (simp add: HasSuffix_def GetName_def sample_defs)
  finally show ?thesis
    using broken c6 [THEN conjunct2] by (intro conjI)
qed

lemma sample_no_root_LoadAll:
  "LoadAll sample_env_no_root ''schemas'' =
     Inl (Wrapped ''failed to read schema dir'' (New ''open schemas: no such file or directory''))"
  by (simp add: LoadAll_def loadFhir_def sample_defs)

text \<open>
  Claim C9, as the code has it. \<^verbatim>\<open>RunE\<close> loads the schemas first and looks at the
  language identifier afterwards. With an identifier that the \<^verbatim>\<open>switch\<close> does not know,
  the command always fails and no generator runs, so what the generators write to is left
  as it was; when the schemas load, the error is \<^verbatim>\<open>unsupported language:\<close> followed by
  the identifier. When the schemas do not load, the error is the load error wrapped in
  \<^verbatim>\<open>failed to load schemas\<close>, whatever the identifier is, and nothing is written.
\<close>

theorem RunE_unsupported_language:
  "(language \<notin> {''python'', ''go'', ''golang'', ''typescript'', ''ts'', ''java'', ''rust'', ''rs'',
        ''csharp'', ''cs'', ''scala'', ''kotlin'', ''kt'', ''sql'', ''dbt''} \<longrightarrow>
      (\<exists>err. RunE env NewGenerator Printf schemaDir outputDir language w = (Some err, w)) \<and>
      (\<forall>schemas. LoadAll env schemaDir = Inr schemas \<longrightarrow>
         RunE env NewGenerator Printf schemaDir outputDir language w =
           (Some (New (''unsupported language: '' @ language)), w) \<and>
         Error (New (''unsupported language: '' @ language)) = ''unsupported language: '' @ language))
   \<and> (\<forall>err. LoadAll env schemaDir = Inl err \<longrightarrow>
         RunE env NewGenerator Printf schemaDir outputDir language w =
           (Some (Wrapped ''failed to load schemas'' err), w) \<and>
         Error (Wrapped ''failed to load schemas'' err) = ''failed to load schemas: '' @ Error err)"
  by (simp add: RunE_def selectGenerator_def split: sum.splits)

text \<open>
  Claim C9 as amended, with the identifier \<^verbatim>\<open>cobol\<close>. On the sample tree the schemas
  load and the error names the identifier; in a working directory without the root
  \<^verbatim>\<open>schemas\<close> the error is the load error. Nothing is recorded as written or printed
  in either.
\<close>

theorem RunE_unsupported_language_witness:
  "''cobol'' \<notin> {''python'', ''go'', ''golang'', ''typescript'', ''ts'', ''java'', ''rust'', ''rs'',
        ''csharp'', ''cs'', ''scala'', ''kotlin'', ''kt'', ''sql'', ''dbt''} \<and>
   (\<exists>schemas. LoadAll sample_env ''schemas'' = Inr schemas) \<and>
   RunE sample_env recording_generator recording_Printf ''schemas'' ''./generated'' ''cobol'' []
     = (Some (New ''unsupported language: cobol''), []) \<and>
   LoadAll sample_env_no_root ''schemas'' =
     Inl (Wrapped ''failed to read schema dir'' (New ''open schemas: no such file or directory'')) \<and>
   RunE sample_env_no_root recording_generator recording_Printf ''schemas'' ''./generated''
       ''cobol'' []
     = (Some (Wrapped ''failed to load schemas'' (Wrapped ''failed to read schema dir''
          (New ''open schemas: no such file or directory''))), [])"
proof -
  have unknown: "''cobol'' \<notin> {''python'', ''go'', ''golang'', ''typescript'', ''ts'', ''java'',
      ''rust'', ''rs'', ''csharp'', ''cs'', ''scala'', ''kotlin'', ''kt'', ''sql'', ''dbt''}"
    by simp
  note c9 = RunE_unsupported_language [of "''cobol''" _ recording_generator
      recording_Printf "''schemas''" "''./generated''" "[]"]
  from c9 [of sample_env, THEN conjunct1, rule_format, OF unknown]
  have "\<forall>schemas. LoadAll sample_env ''schemas'' = Inr schemas \<longrightarrow>
      RunE sample_env recording_generator recording_Printf ''schemas'' ''./generated'' ''cobol'' []
        = (Some (New (''unsupported language: '' @ ''cobol'')), []) \<and>
      Error (New (''unsupported language: '' @ ''cobol'')) = ''unsupported language: '' @ ''cobol''"
    by (rule conjunct2)
  from this [rule_format, OF sample_LoadAll]
  have loads: "RunE sample_env recording_generator recording_Printf ''schemas'' ''./generated''
      ''cobol'' [] = (Some (New ''unsupported language: cobol''), [])"
    by simp
  from c9 [of sample_env_no_root, THEN conjunct2, rule_format, OF sample_no_root_LoadAll]
  have fails: "RunE sample_env_no_root recording_generator recording_Printf ''schemas''
      ''./generated'' ''cobol'' []
      = (Some (Wrapped ''failed to load schemas'' (Wrapped ''failed to read schema dir''
          (New ''open schemas: no such file or directory''))), [])"
    by (rule conjunct1)
  show ?thesis
    using unknown sample_LoadAll loads sample_no_root_LoadAll fails by simp
qed

text \<open>
  Claim C9, as stated, fails: the schemas are read before the identifier is looked at. In
  a working directory without the root \<^verbatim>\<open>schemas\<close> the command with the identifier
  \<^verbatim>\<open>cobol\<close> reports the failure of the read, and the identifier is not in the message.
\<close>

theorem RunE_reads_schemas_first:
  "selectGenerator ''cobol'' = Inl (New ''unsupported language: cobol'') \<and>
   RunE sample_env_no_root recording_generator recording_Printf ''schemas'' ''./generated''
       ''cobol'' []
     = (Some (Wrapped ''failed to load schemas'' (Wrapped ''failed to read schema dir''
          (New ''open schemas: no such file or directory''))), []) \<and>
   Error (Wrapped ''failed to load schemas'' (Wrapped ''failed to read schema dir''
          (New ''open schemas: no such file or directory'')))
     = ''failed to load schemas: failed to read schema dir: open schemas: no such file or directory''"
  by (simp add: RunE_def selectGenerator_def LoadAll_def loadFhir_def sample_defs)

section \<open>Properties of the override resolver\<close>

lemma blank_mergeField:
  "(\<And>name. overrides name \<noteq> None \<Longrightarrow> named name) \<Longrightarrow>
   blank_protection named (mergeField overrides f) = blank_protection named f"
proof (induction f)
  case (ProtectedField name type required description level category hipaa strategy params children)
  have kids: "map (blank_protection named) (map (mergeField overrides) children)
      = map (blank_protection named) children"
    using ProtectedField by simp
  show ?case
  proof (cases "overrides name")
    case None
    then show ?thesis
      using kids by simp
  next
    case (Some entry)
    then have "named name"
      using ProtectedField.prems by simp
    then show ?thesis
      using Some kids by simp
  qed
qed

lemma blank_Merge:
  assumes "\<And>name. field_overrides override name \<noteq> None \<Longrightarrow> named name"
  shows "map (blank_protection named) (base_fields (Merge base override))
     = map (blank_protection named) (base_fields base)"
proof -
  have "blank_protection named (mergeField (field_overrides override) f) = blank_protection named f"
    for f
    using assms by (rule blank_mergeField)
  then show ?thesis
    by (simp add: Merge_def)
qed

text \<open>
  The merge does change what it is asked to: an override of \<^verbatim>\<open>pii_level\<close> and
  \<^verbatim>\<open>masking_strategy\<close> for \<^verbatim>\<open>birthDate\<close> sets both and keeps the type \<^verbatim>\<open>date\<close> and
  \<^verbatim>\<open>required: false\<close>.
\<close>

lemma Merge_birthDate:
  "Merge
     \<lparr>base_name = ''Patient'', base_description = [],
      base_fields = [ProtectedField ''birthDate'' ''date'' False [] [] [] [] [] [] []]\<rparr>
     \<lparr>override_description = [],
      field_overrides = [''birthDate'' \<mapsto>
        \<lparr>override_pii_level = Some ''critical'', override_pii_category = None,
         override_hipaa_identifier = None, override_masking_strategy = Some ''generalize'',
         override_masking_params = None\<rparr>]\<rparr>
   = \<lparr>base_name = ''Patient'', base_description = [],
      base_fields =
        [ProtectedField ''birthDate'' ''date'' False [] ''critical'' [] [] ''generalize'' [] []]\<rparr>"
  by (simp add: Merge_def replaced_def)

text \<open>
  Claim C8. The merged schema and the base schema have the same fields once the five
  protected-data attributes of the fields named in the override are blanked, at every
  depth of nesting: name, type, required, description and the children of every field are
  unchanged, and so are the protected-data attributes of the fields the override does not
  name. With the five attributes of every field blanked the two are equal as well. The
  name and the description of the schema are unchanged.
\<close>

theorem Merge_changes_only_protection:
  "map (blank_protection (\<lambda>name. field_overrides override name \<noteq> None))
       (base_fields (Merge base override))
     = map (blank_protection (\<lambda>name. field_overrides override name \<noteq> None)) (base_fields base)
   \<and> map (blank_protection (\<lambda>name. True)) (base_fields (Merge base override))
     = map (blank_protection (\<lambda>name. True)) (base_fields base)
   \<and> base_name (Merge base override) = base_name base
   \<and> base_description (Merge base override) = base_description base"
proof (intro conjI)
  show "map (blank_protection (\<lambda>name. field_overrides override name \<noteq> None))
       (base_fields (Merge base override))
     = map (blank_protection (\<lambda>name. field_overrides override name \<noteq> None)) (base_fields base)"
    by (rule blank_Merge)
next
  show "map (blank_protection (\<lambda>name. True)) (base_fields (Merge base override))
     = map (blank_protection (\<lambda>name. True)) (base_fields base)"
    by (rule blank_Merge) simp
next
  show "base_name (Merge base override) = base_name base"
    by (simp add: Merge_def)
next
  show "base_description (Merge base override) = base_description base"
    by (simp add: Merge_def)
qed


end
